theory Spec2Isabelle
  imports Main "HOL-Library.AList"
begin

section \<open>Values, objects and maps of the host language\<close>

text \<open>
  A request is an object literal that the code fills in by assignments to nested
  properties. Objects are association lists in insertion order; assigning to a property
  replaces the value of an existing key in place and appends a new key otherwise, which is
  what \<open>AList.update\<close> does. The same holds for the \<open>Map\<close> that \<open>select\<close> fills
  with \<open>set\<close>.
\<close>

datatype jsval =
    JUndefined
  | JNull
  | JBool bool
  | JNum int
  | JStr string
  | JArr "jsval list"
  | JObj "(string \<times> jsval) list"

text \<open>\<open>obj.k1.k2...kn = v\<close>; the code only assigns below properties that its own
  literal has created, so the branch for a missing or non-object parent is never taken.\<close>

fun assign :: "string list \<Rightarrow> jsval \<Rightarrow> jsval \<Rightarrow> jsval" where
  "assign [] v obj = v"
| "assign (k # ks) v (JObj kvs) =
     (case map_of kvs k of
        None \<Rightarrow> (if ks = [] then JObj (AList.update k v kvs) else JObj kvs)
      | Some sub \<Rightarrow> JObj (AList.update k (assign ks v sub) kvs))"
| "assign (k # ks) v obj = obj"

text \<open>\<open>obj.k1.k2...kn\<close>, \<open>None\<close> where the property does not exist.\<close>

fun lookup :: "string list \<Rightarrow> jsval \<Rightarrow> jsval option" where
  "lookup [] obj = Some obj"
| "lookup (k # ks) (JObj kvs) =
     (case map_of kvs k of None \<Rightarrow> None | Some sub \<Rightarrow> lookup ks sub)"
| "lookup (k # ks) obj = None"

text \<open>\<open>xs[i]\<close>: reading past the end of an array gives \<open>undefined\<close>.\<close>

definition at_index :: "jsval list \<Rightarrow> nat \<Rightarrow> jsval" where
  "at_index xs i = (if i < length xs then xs ! i else JUndefined)"

text \<open>
  \<open>String.prototype.toLowerCase\<close>. Strings are byte strings. On a string of ASCII bytes
  the method folds the letters A to Z and keeps every other byte. On a string that holds a
  byte above 127 the result depends on the case tables of the host, which are no part of
  the sources: there the method is the parameter \<open>host_lower\<close>.
\<close>

definition lower_char :: "char \<Rightarrow> char" where
  "lower_char c =
     (if (65::nat) \<le> of_char c \<and> of_char c \<le> (90::nat)
      then char_of (of_char c + (32::nat)) else c)"

definition ascii :: "string \<Rightarrow> bool" where
  "ascii s = list_all (\<lambda>c. of_char c < (128::nat)) s"

definition toLowerCase :: "(string \<Rightarrow> string) \<Rightarrow> string \<Rightarrow> string" where
  "toLowerCase host_lower s = (if ascii s then map lower_char s else host_lower s)"

section \<open>Collaborators: Session, Response, Record, Table, Cursor\<close>

text \<open>
  The classes \<open>Session\<close>, \<open>Record\<close>, \<open>Table\<close>, \<open>Cursor\<close>,
  \<open>ColumnDefinition\<close> and \<open>Messages\<close> are imported by the two source files but
  are not part of them. They enter the model as data: each is a record of exactly the
  members the two files read or write.

  A response has the fields of the data model: \<open>success\<close>, \<open>message\<close> (present on
  failure), \<open>affected\<close> (present for mutating operations), \<open>columns\<close>, \<open>rows\<close> and
  \<open>more\<close>. An absent field reads as \<open>undefined\<close>, which is \<open>None\<close> here.
\<close>

record coldef =
  cd_name :: string
  cd_type :: jsval
  cd_sqltype :: jsval
  cd_precision :: jsval

record response =
  r_success :: bool
  r_message :: "string option"
  r_affected :: "int option"
  r_columns :: "coldef list"
  r_rows :: "jsval list"
  r_more :: bool

text \<open>
  A session has an identifier and the asynchronous method \<open>invoke\<close>. The world \<open>'w\<close>
  is whatever lies behind the session (connection, backend); an awaited call takes the
  world and gives the response and the world after the round trip. The awaited calls
  (\<open>invoke\<close>, and \<open>describe\<close> of a table) are taken to resolve: the two files
  catch nothing, so a rejection would leave the operation as an exception of the
  collaborator.
\<close>

record 'w Session =
  sessionID :: string
  invoke :: "jsval \<Rightarrow> 'w \<Rightarrow> response \<times> 'w"

record ColumnDefinition =
  col_name :: string
  col_type :: jsval
  col_sqltype :: jsval
  col_precision :: jsval

type_synonym ColumnMap = "(string \<times> ColumnDefinition) list"

text \<open>A record: the column names and the values, two parallel arrays.\<close>

record Record =
  rec_columns :: "string list"
  rec_values :: "jsval list"

text \<open>A table: the members \<open>source\<close>, \<open>session\<close>, \<open>bindvalues\<close> read by
  \<open>Insert\<close>, and the column definitions that \<open>getColumnDefinitions()\<close> returns.\<close>

record 'w Table =
  tab_source :: string
  tab_session :: "'w Session"
  tab_bindvalues :: "jsval list option"
  tab_definitions :: ColumnMap

definition getColumnDefinitions :: "'w Table \<Rightarrow> ColumnMap" where
  "getColumnDefinitions t = tab_definitions t"

text \<open>
  The object handed to the cursor as its third argument. \<open>Insert.execute\<close> builds it
  with exactly these three properties; \<open>select\<close> hands over the response after
  replacing its \<open>columns\<close> by the list of names, of which the same three properties
  are kept.
\<close>

record cursor_data =
  cur_more :: bool
  cur_rows :: "jsval list"
  cur_columns :: "string list"

text \<open>\<open>new Cursor(session, columns, response)\<close>: a cursor is represented by the
  arguments its constructor was given.\<close>

record 'w Cursor =
  c_session :: "'w Session"
  c_columns :: ColumnMap
  c_response :: cursor_data

text \<open>The value that \<open>throw Messages.get(code, "AnySQL")\<close> raises.\<close>

datatype error = Message string string

section \<open>AnySQL\<close>

record 'w AnySQL =
  sql_errm :: "string option"
  sql_affected :: "int option"
  sql_success :: bool
  sql_source :: string
  sql_session :: "'w Session"
  sql_savepoint :: "bool option"
  sql_bindvalues :: "jsval list option"

text \<open>
  The constructor. \<open>source\<close> and \<open>session\<close> may be null; \<open>bindvalues\<close> is absent, a
  single pair (left) or an array of pairs (right). \<open>!source\<close> holds for null and for
  the empty string; \<open>!session\<close> holds for null only, a session being an object. The
  constructor gets the world like every other operation and hands it back.
\<close>

definition AnySQL_new ::
  "'w Session option \<Rightarrow> string option \<Rightarrow> (jsval + jsval list) option \<Rightarrow> 'w
     \<Rightarrow> (error + 'w AnySQL) \<times> 'w" where
  "AnySQL_new session source bindvalues w =
     (let bindvalues' =
            (case bindvalues of
               None \<Rightarrow> None
             | Some (Inl bv) \<Rightarrow> Some [bv]
             | Some (Inr bvs) \<Rightarrow> Some bvs)
      in case source of
           None \<Rightarrow> (Inl (Message ''SOURCE_IS_NULL'' ''AnySQL''), w)
         | Some src \<Rightarrow>
             if src = [] then (Inl (Message ''SOURCE_IS_NULL'' ''AnySQL''), w)
             else
               (case session of
                  None \<Rightarrow> (Inl (Message ''SESSION_IS_NULL'' ''AnySQL''), w)
                | Some sess \<Rightarrow>
                    (Inr \<lparr> sql_errm = None, sql_affected = Some 0, sql_success = True,
                           sql_source = src, sql_session = sess,
                           sql_savepoint = None, sql_bindvalues = bindvalues' \<rparr>, w)))"

definition AnySQL_failed :: "'w AnySQL \<Rightarrow> bool" where
  "AnySQL_failed this = (\<not> sql_success this)"

definition AnySQL_getErrorMessage :: "'w AnySQL \<Rightarrow> string option" where
  "AnySQL_getErrorMessage this = sql_errm this"

definition AnySQL_affected :: "'w AnySQL \<Rightarrow> int option" where
  "AnySQL_affected this = sql_affected this"

definition AnySQL_useSavePoint :: "bool \<Rightarrow> 'w AnySQL \<Rightarrow> 'w AnySQL" where
  "AnySQL_useSavePoint flag this = this\<lparr>sql_savepoint := Some flag\<rparr>"

text \<open>The two conditional assignments that every operation of \<open>AnySQL\<close> makes to its
  request after the literal: \<open>request.Sql.bindvalues\<close> and \<open>request.Sql.savepoint\<close>.\<close>

definition Sql_options :: "'w AnySQL \<Rightarrow> jsval \<Rightarrow> jsval" where
  "Sql_options this request =
     (let request = (case sql_bindvalues this of
                       None \<Rightarrow> request
                     | Some bvs \<Rightarrow> assign [''Sql'', ''bindvalues''] (JArr bvs) request);
          request = (case sql_savepoint this of
                       None \<Rightarrow> request
                     | Some flag \<Rightarrow> assign [''Sql'', ''savepoint''] (JBool flag) request)
      in request)"

text \<open>The request of \<open>execute\<close>, \<open>insert\<close>, \<open>update\<close> and \<open>delete\<close>; the four
  methods differ in the string under \<open>invoke\<close> only.\<close>

definition Sql_request :: "string \<Rightarrow> 'w AnySQL \<Rightarrow> jsval" where
  "Sql_request verb this =
     Sql_options this
       (JObj [(''Sql'', JObj [(''invoke'', JStr verb),
                              (''source'', JStr (sql_source this)),
                              (''session'', JStr (sessionID (sql_session this)))])])"

definition AnySQL_execute :: "'w AnySQL \<Rightarrow> 'w \<Rightarrow> (bool \<times> 'w AnySQL) \<times> 'w" where
  "AnySQL_execute this w =
     (let request = Sql_request ''execute'' this;
          (response, w') = invoke (sql_session this) request w;
          this = this\<lparr>sql_errm := r_message response\<rparr>;
          this = this\<lparr>sql_success := r_success response\<rparr>
      in ((sql_success this, this), w'))"

definition AnySQL_insert :: "'w AnySQL \<Rightarrow> 'w \<Rightarrow> (bool \<times> 'w AnySQL) \<times> 'w" where
  "AnySQL_insert this w =
     (let request = Sql_request ''insert'' this;
          (response, w') = invoke (sql_session this) request w;
          this = this\<lparr>sql_errm := r_message response\<rparr>;
          this = this\<lparr>sql_success := r_success response\<rparr>;
          this = (if sql_success this
                  then this\<lparr>sql_affected := r_affected response\<rparr> else this)
      in ((sql_success this, this), w'))"

definition AnySQL_update :: "'w AnySQL \<Rightarrow> 'w \<Rightarrow> (bool \<times> 'w AnySQL) \<times> 'w" where
  "AnySQL_update this w =
     (let request = Sql_request ''update'' this;
          (response, w') = invoke (sql_session this) request w;
          this = this\<lparr>sql_errm := r_message response\<rparr>;
          this = this\<lparr>sql_success := r_success response\<rparr>;
          this = (if sql_success this
                  then this\<lparr>sql_affected := r_affected response\<rparr> else this)
      in ((sql_success this, this), w'))"

definition AnySQL_delete :: "'w AnySQL \<Rightarrow> 'w \<Rightarrow> (bool \<times> 'w AnySQL) \<times> 'w" where
  "AnySQL_delete this w =
     (let request = Sql_request ''delete'' this;
          (response, w') = invoke (sql_session this) request w;
          this = this\<lparr>sql_errm := r_message response\<rparr>;
          this = this\<lparr>sql_success := r_success response\<rparr>;
          this = (if sql_success this
                  then this\<lparr>sql_affected := r_affected response\<rparr> else this)
      in ((sql_success this, this), w'))"

text \<open>The request of \<open>select\<close>, with \<open>close\<close> and \<open>arrayfetch\<close> after their
  defaults have been filled in.\<close>

definition select_request :: "bool \<Rightarrow> int \<Rightarrow> 'w AnySQL \<Rightarrow> jsval" where
  "select_request close arrayfetch this =
     (let request =
            JObj [(''Sql'', JObj [(''invoke'', JStr ''select''),
                                  (''source'', JStr (sql_source this)),
                                  (''session'', JStr (sessionID (sql_session this))),
                                  (''select()'', JObj [(''page-size'', JNum arrayfetch)])])];
          request = Sql_options this request;
          request = (if close
                     then assign [''Sql'', ''select()'', ''cursor''] (JBool False) request
                     else request)
      in request)"

text \<open>The body of the \<open>forEach\<close> over the column descriptors of the response: one
  \<open>ColumnDefinition\<close> per descriptor, its name pushed onto \<open>cols\<close> and the definition
  stored in the map under the lower-cased name.\<close>

definition add_column ::
  "(string \<Rightarrow> string) \<Rightarrow> coldef \<Rightarrow> string list \<times> ColumnMap
     \<Rightarrow> string list \<times> ColumnMap" where
  "add_column host_lower cd acc =
     (let (cols, columns) = acc;
          column = \<lparr> col_name = cd_name cd, col_type = cd_type cd,
                     col_sqltype = cd_sqltype cd, col_precision = cd_precision cd \<rparr>
      in (cols @ [col_name column],
          AList.update (toLowerCase host_lower (col_name column)) column columns))"

definition AnySQL_select ::
  "(string \<Rightarrow> string) \<Rightarrow> bool option \<Rightarrow> int option \<Rightarrow> 'w AnySQL \<Rightarrow> 'w \<Rightarrow> ('w Cursor option \<times> 'w AnySQL) \<times> 'w" where
  "AnySQL_select host_lower close arrayfetch this w =
     (let close = (case close of None \<Rightarrow> False | Some c \<Rightarrow> c);
          arrayfetch = (case arrayfetch of None \<Rightarrow> 1 | Some n \<Rightarrow> n);
          request = select_request close arrayfetch this;
          (response, w') = invoke (sql_session this) request w;
          this = this\<lparr>sql_errm := r_message response\<rparr>;
          this = this\<lparr>sql_success := r_success response\<rparr>
      in if r_success response then
           (let (cols, columns) = fold (add_column host_lower) (r_columns response) ([], [])
            in ((Some \<lparr> c_session = sql_session this, c_columns = columns,
                        c_response = \<lparr> cur_more = r_more response,
                                        cur_rows = r_rows response,
                                        cur_columns = cols \<rparr> \<rparr>, this), w'))
         else ((None, this), w'))"

section \<open>Insert\<close>

record 'w Insert =
  ins_errm :: "string option"
  ins_success :: bool
  ins_affected :: "int option"
  ins_cursor :: "'w Cursor option"
  ins_table :: "'w Table"
  ins_source :: string
  ins_session :: "'w Session"
  ins_savepoint :: "bool option"
  ins_returning :: "string list option"

definition Insert_new :: "'w Table \<Rightarrow> 'w Insert" where
  "Insert_new table =
     \<lparr> ins_errm = None, ins_success = True, ins_affected = Some 0, ins_cursor = None,
       ins_table = table, ins_source = tab_source table, ins_session = tab_session table,
       ins_savepoint = None, ins_returning = None \<rparr>"

definition Insert_failed :: "'w Insert \<Rightarrow> bool" where
  "Insert_failed this = (\<not> ins_success this)"

definition Insert_getErrorMessage :: "'w Insert \<Rightarrow> string option" where
  "Insert_getErrorMessage this = ins_errm this"

definition Insert_affected :: "'w Insert \<Rightarrow> int option" where
  "Insert_affected this = ins_affected this"

definition Insert_getReturnValues :: "'w Insert \<Rightarrow> 'w Cursor option" where
  "Insert_getReturnValues this = ins_cursor this"

text \<open>\<open>setReturnColumns\<close> takes one name (left) or an array of names (right).\<close>

definition Insert_setReturnColumns :: "string + string list \<Rightarrow> 'w Insert \<Rightarrow> 'w Insert" where
  "Insert_setReturnColumns columns this =
     (let columns = (case columns of Inl c \<Rightarrow> [c] | Inr cs \<Rightarrow> cs)
      in this\<lparr>ins_returning := Some columns\<rparr>)"

definition Insert_useSavePoint :: "bool \<Rightarrow> 'w Insert \<Rightarrow> 'w Insert" where
  "Insert_useSavePoint flag this = this\<lparr>ins_savepoint := Some flag\<rparr>"

text \<open>The loop of \<open>execute\<close> over the record: one \<open>{column, value}\<close> object for each
  index below \<open>record.columns.length\<close>.\<close>

definition record_values :: "Record \<Rightarrow> jsval list" where
  "record_values record =
     map (\<lambda>i. JObj [(''column'', JStr (rec_columns record ! i)),
                     (''value'', at_index (rec_values record) i)])
         [0 ..< length (rec_columns record)]"

text \<open>The request of \<open>Insert.execute\<close>, built from the object and the table as it is
  after \<open>describe()\<close>.\<close>

definition insert_request :: "'w Insert \<Rightarrow> Record \<Rightarrow> jsval" where
  "insert_request this record =
     (let request =
            JObj [(''Table'', JObj [(''invoke'', JStr ''insert''),
                                    (''source'', JStr (ins_source this)),
                                    (''session'', JStr (sessionID (ins_session this))),
                                    (''insert()'', JObj [])])];
          request = (case tab_bindvalues (ins_table this) of
                       None \<Rightarrow> request
                     | Some bvs \<Rightarrow> assign [''Table'', ''bindvalues''] (JArr bvs) request);
          request = (case ins_savepoint this of
                       None \<Rightarrow> request
                     | Some flag \<Rightarrow>
                         assign [''Table'', ''insert()'', ''savepoint''] (JBool flag) request);
          cols = record_values record;
          request = assign [''Table'', ''insert()'', ''values''] (JArr cols) request;
          request = (case ins_returning this of
                       None \<Rightarrow> request
                     | Some rs \<Rightarrow>
                         assign [''Table'', ''insert()'', ''returning'']
                                (JArr (map JStr rs)) request)
      in request)"

text \<open>
  \<open>execute\<close>. The awaited \<open>this.table$.describe()\<close> belongs to the table: it is the
  parameter \<open>describe\<close>, which gives the table and the world after the call.
\<close>

definition Insert_execute ::
  "('w Table \<Rightarrow> 'w \<Rightarrow> 'w Table \<times> 'w) \<Rightarrow> Record \<Rightarrow> 'w Insert \<Rightarrow> 'w
     \<Rightarrow> (bool \<times> 'w Insert) \<times> 'w" where
  "Insert_execute describe record this w =
     (let this = this\<lparr>ins_affected := Some 0\<rparr>;
          this = this\<lparr>ins_cursor := None\<rparr>;
          (table, w1) = describe (ins_table this) w;
          this = this\<lparr>ins_table := table\<rparr>;
          request = insert_request this record;
          (response, w2) = invoke (ins_session this) request w1;
          this = this\<lparr>ins_errm := r_message response\<rparr>;
          this = this\<lparr>ins_success := r_success response\<rparr>;
          this = (if ins_success this
                  then this\<lparr>ins_affected := r_affected response\<rparr> else this);
          this = (case ins_returning this of
                    None \<Rightarrow> this
                  | Some returning \<Rightarrow>
                      if ins_success this then
                        (let curs = \<lparr> cur_more = False, cur_rows = r_rows response,
                                       cur_columns = returning \<rparr>
                         in this\<lparr>ins_cursor :=
                                   Some \<lparr> c_session = ins_session this,
                                          c_columns = getColumnDefinitions (ins_table this),
                                          c_response = curs \<rparr>\<rparr>)
                      else this)
      in ((ins_success this, this), w2))"

section \<open>Outcomes of awaited calls\<close>

text \<open>
  An operation gives the value it returns, the object as the call has left it, and the
  world after the call.
\<close>

abbreviation returned :: "('a \<times> 's) \<times> 'w \<Rightarrow> 'a" where
  "returned outcome \<equiv> fst (fst outcome)"

abbreviation object_after :: "('a \<times> 's) \<times> 'w \<Rightarrow> 's" where
  "object_after outcome \<equiv> snd (fst outcome)"

abbreviation world_after :: "('a \<times> 's) \<times> 'w \<Rightarrow> 'w" where
  "world_after outcome \<equiv> snd outcome"

text \<open>Two awaited calls in a row on the same object: the second starts from the object
  and the world that the first has left.\<close>

definition consecutive ::
  "('s \<Rightarrow> 'w \<Rightarrow> ('a \<times> 's) \<times> 'w) \<Rightarrow> ('s \<Rightarrow> 'w \<Rightarrow> ('b \<times> 's) \<times> 'w)
     \<Rightarrow> 's \<Rightarrow> 'w \<Rightarrow> ('b \<times> 's) \<times> 'w" where
  "consecutive first second this w =
     (let ((result, this'), w') = first this w in second this' w')"

section \<open>A scripted session\<close>

text \<open>
  A session for running the operations on concrete inputs: its world is the list of the
  requests it has been handed and the list of the responses it still has to give. It
  answers every request with the next response of its script, and declines with the
  message \<open>X\<close> once the script is used up.
\<close>

type_synonym mock_world = "jsval list \<times> response list"

definition declined :: response where
  "declined = \<lparr> r_success = False, r_message = Some ''X'', r_affected = None,
                 r_columns = [], r_rows = [], r_more = False \<rparr>"

definition accepted :: "int \<Rightarrow> response" where
  "accepted n = \<lparr> r_success = True, r_message = None, r_affected = Some n,
                   r_columns = [], r_rows = [], r_more = False \<rparr>"

definition mock_invoke :: "jsval \<Rightarrow> mock_world \<Rightarrow> response \<times> mock_world" where
  "mock_invoke request w =
     (case snd w of
        [] \<Rightarrow> (declined, (fst w @ [request], []))
      | r # rs \<Rightarrow> (r, (fst w @ [request], rs)))"

definition mock_session :: "mock_world Session" where
  "mock_session = \<lparr> sessionID = ''S1'', invoke = mock_invoke \<rparr>"

definition mock_sql :: "mock_world AnySQL" where
  "mock_sql = \<lparr> sql_errm = None, sql_affected = Some 0, sql_success = True,
                 sql_source = ''delete from t'', sql_session = mock_session,
                 sql_savepoint = None, sql_bindvalues = None \<rparr>"

text \<open>A table \<open>emp\<close> on that session, whose \<open>describe()\<close> changes nothing, a record
  of two columns, and an \<open>Insert\<close> as its constructor leaves it.\<close>

definition mock_table :: "mock_world Table" where
  "mock_table =
     \<lparr> tab_source = ''emp'', tab_session = mock_session, tab_bindvalues = None,
       tab_definitions =
         [(''id'', \<lparr> col_name = ''id'', col_type = JStr ''integer'',
                     col_sqltype = JNum 4, col_precision = JArr [JNum 10, JNum 0] \<rparr>)] \<rparr>"

definition mock_describe :: "mock_world Table \<Rightarrow> mock_world \<Rightarrow> mock_world Table \<times> mock_world" where
  "mock_describe table w = (table, w)"

definition mock_record :: Record where
  "mock_record = \<lparr> rec_columns = [''id'', ''name''], rec_values = [JNum 7, JStr ''Ann''] \<rparr>"

definition mock_insert :: "mock_world Insert" where
  "mock_insert =
     \<lparr> ins_errm = None, ins_success = True, ins_affected = Some 0, ins_cursor = None,
       ins_table = mock_table, ins_source = ''emp'', ins_session = mock_session,
       ins_savepoint = None, ins_returning = None \<rparr>"

text \<open>A response to \<open>select\<close> with the single column descriptor \<open>{name: "A"}\<close>, and a
  response to an insert that returns one row.\<close>

definition select_reply :: response where
  "select_reply =
     \<lparr> r_success = True, r_message = None, r_affected = None,
       r_columns = [\<lparr> cd_name = ''A'', cd_type = JStr ''string'', cd_sqltype = JNum 12,
                       cd_precision = JArr [JNum 30, JNum 0] \<rparr>],
       r_rows = [JArr [JStr ''x'']], r_more = False \<rparr>"

definition insert_reply :: response where
  "insert_reply = (accepted 1)\<lparr>r_rows := [JArr [JNum 7]]\<rparr>"

section \<open>Properties\<close>

subsection \<open>Calls on the scripted session\<close>

lemma mock_call:
  "invoke mock_session rq (sent, r # rs) = (r, (sent @ [rq], rs))"
  by (simp add: mock_session_def mock_invoke_def)

lemma mock_sql_call:
  "invoke (sql_session mock_sql) rq (sent, r # rs) = (r, (sent @ [rq], rs))"
  by (simp add: mock_sql_def mock_call)

lemma mock_insert_call:
  "invoke (ins_session (Insert_setReturnColumns cs mock_insert)) rq (sent, r # rs)
     = (r, (sent @ [rq], rs))"
  by (simp add: Insert_setReturnColumns_def mock_insert_def mock_call)

lemma consecutive_eq:
  "consecutive first second this w
     = second (object_after (first this w)) (world_after (first this w))"
  by (simp add: consecutive_def split: prod.splits)

subsection \<open>Requests and outcomes\<close>

text \<open>The requests do not depend on the result fields of the object.\<close>

lemma Sql_request_result_fields [simp]:
  "Sql_request verb (this\<lparr>sql_errm := e\<rparr>) = Sql_request verb this"
  "Sql_request verb (this\<lparr>sql_success := s\<rparr>) = Sql_request verb this"
  "Sql_request verb (this\<lparr>sql_affected := n\<rparr>) = Sql_request verb this"
  by (simp_all add: Sql_request_def Sql_options_def)

lemma select_request_result_fields [simp]:
  "select_request c k (this\<lparr>sql_errm := e\<rparr>) = select_request c k this"
  "select_request c k (this\<lparr>sql_success := s\<rparr>) = select_request c k this"
  "select_request c k (this\<lparr>sql_affected := n\<rparr>) = select_request c k this"
  by (simp_all add: select_request_def Sql_options_def)

lemma insert_request_cong:
  "ins_source a = ins_source b \<Longrightarrow> ins_session a = ins_session b
     \<Longrightarrow> ins_table a = ins_table b \<Longrightarrow> ins_savepoint a = ins_savepoint b
     \<Longrightarrow> ins_returning a = ins_returning b
     \<Longrightarrow> insert_request a rcd = insert_request b rcd"
  by (simp add: insert_request_def)

text \<open>\<open>Insert.execute\<close> in one equation: what it returns and the object it leaves, given
  the table after \<open>describe()\<close> and the response of the session.\<close>

lemma Insert_execute_eq:
  assumes "describe (ins_table ins) w = (t, w1)"
      and "invoke (ins_session ins) (insert_request (ins\<lparr>ins_table := t\<rparr>) rcd) w1 = (r, w2)"
  shows "Insert_execute describe rcd ins w =
           ((r_success r,
             ins\<lparr>ins_table := t, ins_errm := r_message r, ins_success := r_success r,
                 ins_affected := (if r_success r then r_affected r else Some 0),
                 ins_cursor :=
                   (case ins_returning ins of
                      None \<Rightarrow> None
                    | Some returning \<Rightarrow>
                        if r_success r
                        then Some \<lparr> c_session = ins_session ins,
                                    c_columns = getColumnDefinitions t,
                                    c_response = \<lparr> cur_more = False, cur_rows = r_rows r,
                                                    cur_columns = returning \<rparr> \<rparr>
                        else None)\<rparr>), w2)"
proof -
  let ?a = "ins\<lparr>ins_affected := Some 0, ins_cursor := None, ins_table := t\<rparr>"
  have rq: "insert_request ?a rcd = insert_request (ins\<lparr>ins_table := t\<rparr>) rcd"
    by (rule insert_request_cong) simp_all
  show ?thesis
    using assms rq by (simp add: Insert_execute_def Let_def split: option.splits)
qed

text \<open>The three kinds of request, written out: the properties of each object in the order
  in which the code creates them.\<close>

lemma Sql_request_shape:
  "Sql_request verb sql =
     JObj [(''Sql'',
       JObj ([(''invoke'', JStr verb), (''source'', JStr (sql_source sql)),
              (''session'', JStr (sessionID (sql_session sql)))]
             @ (case sql_bindvalues sql of None \<Rightarrow> [] | Some bvs \<Rightarrow> [(''bindvalues'', JArr bvs)])
             @ (case sql_savepoint sql of None \<Rightarrow> [] | Some flag \<Rightarrow> [(''savepoint'', JBool flag)])))]"
  by (simp add: Sql_request_def Sql_options_def Let_def split: option.splits)

lemma select_request_shape:
  "select_request close k sql =
     JObj [(''Sql'',
       JObj ([(''invoke'', JStr ''select''), (''source'', JStr (sql_source sql)),
              (''session'', JStr (sessionID (sql_session sql))),
              (''select()'', JObj ((''page-size'', JNum k)
                                   # (if close then [(''cursor'', JBool False)] else [])))]
             @ (case sql_bindvalues sql of None \<Rightarrow> [] | Some bvs \<Rightarrow> [(''bindvalues'', JArr bvs)])
             @ (case sql_savepoint sql of None \<Rightarrow> [] | Some flag \<Rightarrow> [(''savepoint'', JBool flag)])))]"
  by (simp add: select_request_def Sql_options_def Let_def split: option.splits)

lemma insert_request_shape:
  "insert_request ins rcd =
     JObj [(''Table'',
       JObj ([(''invoke'', JStr ''insert''), (''source'', JStr (ins_source ins)),
              (''session'', JStr (sessionID (ins_session ins))),
              (''insert()'',
                 JObj ((case ins_savepoint ins of None \<Rightarrow> []
                        | Some flag \<Rightarrow> [(''savepoint'', JBool flag)])
                       @ [(''values'', JArr (record_values rcd))]
                       @ (case ins_returning ins of None \<Rightarrow> []
                          | Some rs \<Rightarrow> [(''returning'', JArr (map JStr rs))])))]
             @ (case tab_bindvalues (ins_table ins) of None \<Rightarrow> []
                | Some bvs \<Rightarrow> [(''bindvalues'', JArr bvs)])))]"
  by (simp add: insert_request_def Let_def split: option.splits)

text \<open>Reading single properties of the requests.\<close>

lemma Sql_request_fields:
  "lookup [''Sql'', ''savepoint''] (Sql_request verb sql) = map_option JBool (sql_savepoint sql)"
  "lookup [''Sql'', ''bindvalues''] (Sql_request verb sql) = map_option JArr (sql_bindvalues sql)"
  "lookup [''Sql'', ''invoke''] (Sql_request verb sql) = Some (JStr verb)"
  "lookup [''Sql'', ''source''] (Sql_request verb sql) = Some (JStr (sql_source sql))"
  "lookup [''Sql'', ''session''] (Sql_request verb sql) = Some (JStr (sessionID (sql_session sql)))"
  by (simp_all add: Sql_request_def Sql_options_def Let_def split: option.splits)

lemma select_request_fields:
  "lookup [''Sql'', ''savepoint''] (select_request close k sql) = map_option JBool (sql_savepoint sql)"
  "lookup [''Sql'', ''bindvalues''] (select_request close k sql) = map_option JArr (sql_bindvalues sql)"
  "lookup [''Sql'', ''invoke''] (select_request close k sql) = Some (JStr ''select'')"
  "lookup [''Sql'', ''source''] (select_request close k sql) = Some (JStr (sql_source sql))"
  "lookup [''Sql'', ''session''] (select_request close k sql) = Some (JStr (sessionID (sql_session sql)))"
  "lookup [''Sql'', ''select()'', ''savepoint''] (select_request close k sql) = None"
  by (simp_all add: select_request_def Sql_options_def Let_def split: option.splits)

lemma insert_request_fields:
  "lookup [''Table'', ''insert()'', ''savepoint''] (insert_request ins rcd)
     = map_option JBool (ins_savepoint ins)"
  "lookup [''Table'', ''savepoint''] (insert_request ins rcd) = None"
  "lookup [''Table'', ''bindvalues''] (insert_request ins rcd)
     = map_option JArr (tab_bindvalues (ins_table ins))"
  "lookup [''Table'', ''invoke''] (insert_request ins rcd) = Some (JStr ''insert'')"
  "lookup [''Table'', ''source''] (insert_request ins rcd) = Some (JStr (ins_source ins))"
  "lookup [''Table'', ''session''] (insert_request ins rcd) = Some (JStr (sessionID (ins_session ins)))"
  "lookup [''Table'', ''insert()'', ''values''] (insert_request ins rcd) = Some (JArr (record_values rcd))"
  "lookup [''Table'', ''insert()'', ''returning''] (insert_request ins rcd)
     = map_option (\<lambda>rs. JArr (map JStr rs)) (ins_returning ins)"
  by (simp_all add: insert_request_def Let_def split: option.splits)

text \<open>The loop over the column descriptors: the names are collected as they are spelled,
  the keys of the map are the lower-cased names.\<close>

lemma toLowerCase_A: "toLowerCase host_lower ''A'' = ''a''"
proof -
  have a: "ascii ''A''" by (simp add: ascii_def)
  have l: "map lower_char ''A'' = ''a''" by code_simp
  from a l show ?thesis by (simp add: toLowerCase_def)
qed

lemma add_column_pair:
  "add_column host_lower cd (cols, columns) =
     (cols @ [cd_name cd],
      AList.update (toLowerCase host_lower (cd_name cd))
        \<lparr> col_name = cd_name cd, col_type = cd_type cd,
          col_sqltype = cd_sqltype cd, col_precision = cd_precision cd \<rparr> columns)"
  by (simp add: add_column_def)

lemma add_column_keys:
  "fst ` set (snd (fold (add_column host_lower) cds acc))
     = fst ` set (snd acc) \<union> toLowerCase host_lower ` cd_name ` set cds"
proof (induction cds arbitrary: acc)
  case Nil
  show ?case by simp
next
  case (Cons cd cds)
  obtain cols columns where acc: "acc = (cols, columns)" by (cases acc)
  show ?case
    by (simp add: Cons.IH acc add_column_pair dom_update)
qed

lemma add_column_names:
  "fst (fold (add_column host_lower) cds acc) = fst acc @ map cd_name cds"
proof (induction cds arbitrary: acc)
  case Nil
  show ?case by simp
next
  case (Cons cd cds)
  obtain cols columns where acc: "acc = (cols, columns)" by (cases acc)
  show ?case by (simp add: Cons.IH acc add_column_pair)
qed

subsection \<open>C1: what the mutating operations of AnySQL copy\<close>

text \<open>
  C1 (as amended). After the awaited \<open>invoke\<close> has given the response \<open>r\<close>, each of
  \<open>execute\<close>, \<open>insert\<close>, \<open>update\<close> and \<open>delete\<close> copies \<open>r.message\<close> into the
  error message and \<open>r.success\<close> into the success flag, and returns \<open>r.success\<close>.
  \<open>insert\<close>, \<open>update\<close> and \<open>delete\<close> copy \<open>r.affected\<close> into the affected count
  when \<open>r.success\<close> holds and leave the count as it was otherwise; \<open>execute\<close> never
  changes the affected count. No other field of the object changes.
\<close>

theorem AnySQL_mutators_copy:
  assumes "invoke (sql_session this) (Sql_request ''execute'' this) w = (re, we)"
      and "invoke (sql_session this) (Sql_request ''insert'' this) w = (ri, wi)"
      and "invoke (sql_session this) (Sql_request ''update'' this) w = (ru, wu)"
      and "invoke (sql_session this) (Sql_request ''delete'' this) w = (rd, wd)"
  shows "AnySQL_execute this w =
           ((r_success re, this\<lparr>sql_errm := r_message re, sql_success := r_success re\<rparr>), we)
       \<and> AnySQL_insert this w =
           ((r_success ri,
             this\<lparr>sql_errm := r_message ri, sql_success := r_success ri,
                  sql_affected := (if r_success ri then r_affected ri else sql_affected this)\<rparr>), wi)
       \<and> AnySQL_update this w =
           ((r_success ru,
             this\<lparr>sql_errm := r_message ru, sql_success := r_success ru,
                  sql_affected := (if r_success ru then r_affected ru else sql_affected this)\<rparr>), wu)
       \<and> AnySQL_delete this w =
           ((r_success rd,
             this\<lparr>sql_errm := r_message rd, sql_success := r_success rd,
                  sql_affected := (if r_success rd then r_affected rd else sql_affected this)\<rparr>), wd)"
proof -
  have e: "AnySQL_execute this w =
           ((r_success re, this\<lparr>sql_errm := r_message re, sql_success := r_success re\<rparr>), we)"
    using assms(1) by (simp add: AnySQL_execute_def)
  have i: "AnySQL_insert this w =
           ((r_success ri,
             this\<lparr>sql_errm := r_message ri, sql_success := r_success ri,
                  sql_affected := (if r_success ri then r_affected ri else sql_affected this)\<rparr>), wi)"
    using assms(2) by (simp add: AnySQL_insert_def)
  have u: "AnySQL_update this w =
           ((r_success ru,
             this\<lparr>sql_errm := r_message ru, sql_success := r_success ru,
                  sql_affected := (if r_success ru then r_affected ru else sql_affected this)\<rparr>), wu)"
    using assms(3) by (simp add: AnySQL_update_def)
  have d: "AnySQL_delete this w =
           ((r_success rd,
             this\<lparr>sql_errm := r_message rd, sql_success := r_success rd,
                  sql_affected := (if r_success rd then r_affected rd else sql_affected this)\<rparr>), wd)"
    using assms(4) by (simp add: AnySQL_delete_def)
  from e i u d show ?thesis by blast
qed

theorem AnySQL_mutators_copy_witness:
  "AnySQL_affected (object_after (AnySQL_execute mock_sql ([], [accepted 5]))) = Some 0
 \<and> AnySQL_affected (object_after (AnySQL_insert mock_sql ([], [accepted 5]))) = Some 5
 \<and> AnySQL_affected (object_after (AnySQL_update mock_sql ([], [accepted 5]))) = Some 5
 \<and> AnySQL_affected (object_after (AnySQL_delete mock_sql ([], [accepted 5]))) = Some 5"
proof -
  note call = mock_sql_call [where r = "accepted 5" and sent = "[]" and rs = "[]"]
  show ?thesis
    using AnySQL_mutators_copy [OF call call call call]
    by (simp add: AnySQL_affected_def accepted_def mock_sql_def)
qed

text \<open>
  C1 as stated fails: after an \<open>execute\<close> that the backend accepts with five affected
  rows, \<open>affected()\<close> is still 0; and an \<open>insert\<close> that the backend declines does not
  copy the \<open>affected\<close> of its response.
\<close>

theorem AnySQL_execute_affected_counterexample:
  "AnySQL_affected (object_after (AnySQL_execute mock_sql ([], [accepted 5]))) \<noteq> r_affected (accepted 5)
 \<and> AnySQL_affected (object_after (AnySQL_insert mock_sql ([], [declined\<lparr>r_affected := Some 5\<rparr>])))
      \<noteq> r_affected (declined\<lparr>r_affected := Some 5\<rparr>)"
  by (simp add: AnySQL_execute_def AnySQL_insert_def AnySQL_affected_def mock_sql_call)
     (simp add: accepted_def declined_def mock_sql_def)

subsection \<open>C2: what a second call overwrites\<close>

text \<open>An operation overwrites a field when its outcome does not depend on the value the
  field had before the call.\<close>

lemma Insert_execute_forgets:
  "Insert_execute describe rcd
     (ins\<lparr>ins_errm := e, ins_success := s, ins_affected := n, ins_cursor := c\<rparr>) w
   = Insert_execute describe rcd ins w"
proof -
  obtain t w1 where d: "describe (ins_table ins) w = (t, w1)"
    by (cases "describe (ins_table ins) w")
  let ?a = "ins\<lparr>ins_errm := e, ins_success := s, ins_affected := Some 0,
                  ins_cursor := None, ins_table := t\<rparr>"
  let ?b = "ins\<lparr>ins_affected := Some 0, ins_cursor := None, ins_table := t\<rparr>"
  have rq: "insert_request ?a rcd = insert_request ?b rcd"
    by (rule insert_request_cong) simp_all
  obtain r w2 where i: "invoke (ins_session ins) (insert_request ?b rcd) w1 = (r, w2)"
    by (cases "invoke (ins_session ins) (insert_request ?b rcd) w1")
  show ?thesis
    using d i rq by (simp add: Insert_execute_def Let_def split: option.splits)
qed

lemma AnySQL_forget_status:
  "AnySQL_execute (sql\<lparr>sql_errm := e, sql_success := s\<rparr>) w = AnySQL_execute sql w"
  "AnySQL_insert (sql\<lparr>sql_errm := e, sql_success := s\<rparr>) w = AnySQL_insert sql w"
  "AnySQL_update (sql\<lparr>sql_errm := e, sql_success := s\<rparr>) w = AnySQL_update sql w"
  "AnySQL_delete (sql\<lparr>sql_errm := e, sql_success := s\<rparr>) w = AnySQL_delete sql w"
  "AnySQL_select host_lower close k (sql\<lparr>sql_errm := e, sql_success := s\<rparr>) w = AnySQL_select host_lower close k sql w"
  by (simp_all add: AnySQL_execute_def AnySQL_insert_def AnySQL_update_def AnySQL_delete_def
        AnySQL_select_def Let_def split: prod.splits)

lemma AnySQL_forget_affected:
  "r_success (fst (invoke (sql_session sql) (Sql_request ''insert'' sql) w))
     \<Longrightarrow> AnySQL_insert (sql\<lparr>sql_affected := m\<rparr>) w = AnySQL_insert sql w"
  "r_success (fst (invoke (sql_session sql) (Sql_request ''update'' sql) w))
     \<Longrightarrow> AnySQL_update (sql\<lparr>sql_affected := m\<rparr>) w = AnySQL_update sql w"
  "r_success (fst (invoke (sql_session sql) (Sql_request ''delete'' sql) w))
     \<Longrightarrow> AnySQL_delete (sql\<lparr>sql_affected := m\<rparr>) w = AnySQL_delete sql w"
  by (auto simp add: AnySQL_insert_def AnySQL_update_def AnySQL_delete_def Let_def
        split: prod.splits)

text \<open>
  C2 (as amended). \<open>Insert.execute\<close> overwrites the success flag, the error message, the
  affected count and the cursor, whether the call succeeds or fails: its outcome is the
  same whatever these four fields held before. Every operation of \<open>AnySQL\<close> overwrites
  the success flag and the error message, whether it succeeds or fails; \<open>insert\<close>,
  \<open>update\<close> and \<open>delete\<close> overwrite the affected count when the backend accepts the
  call.
\<close>

theorem second_call_overwrites:
  "Insert_execute describe rcd
     (ins\<lparr>ins_errm := e, ins_success := s, ins_affected := n, ins_cursor := c\<rparr>) w
     = Insert_execute describe rcd ins w
 \<and> AnySQL_execute (sql\<lparr>sql_errm := e, sql_success := s\<rparr>) w' = AnySQL_execute sql w'
 \<and> AnySQL_insert (sql\<lparr>sql_errm := e, sql_success := s\<rparr>) w' = AnySQL_insert sql w'
 \<and> AnySQL_update (sql\<lparr>sql_errm := e, sql_success := s\<rparr>) w' = AnySQL_update sql w'
 \<and> AnySQL_delete (sql\<lparr>sql_errm := e, sql_success := s\<rparr>) w' = AnySQL_delete sql w'
 \<and> AnySQL_select host_lower close k (sql\<lparr>sql_errm := e, sql_success := s\<rparr>) w'
     = AnySQL_select host_lower close k sql w'
 \<and> (r_success (fst (invoke (sql_session sql) (Sql_request ''insert'' sql) w'))
      \<longrightarrow> AnySQL_insert (sql\<lparr>sql_affected := m\<rparr>) w' = AnySQL_insert sql w')
 \<and> (r_success (fst (invoke (sql_session sql) (Sql_request ''update'' sql) w'))
      \<longrightarrow> AnySQL_update (sql\<lparr>sql_affected := m\<rparr>) w' = AnySQL_update sql w')
 \<and> (r_success (fst (invoke (sql_session sql) (Sql_request ''delete'' sql) w'))
      \<longrightarrow> AnySQL_delete (sql\<lparr>sql_affected := m\<rparr>) w' = AnySQL_delete sql w')"
  by (simp add: Insert_execute_forgets AnySQL_forget_status AnySQL_forget_affected)

theorem second_call_overwrites_witness:
  "r_success (fst (invoke (sql_session mock_sql) (Sql_request ''insert'' mock_sql) ([], [accepted 1])))
 \<and> r_success (fst (invoke (sql_session mock_sql) (Sql_request ''update'' mock_sql) ([], [accepted 1])))
 \<and> r_success (fst (invoke (sql_session mock_sql) (Sql_request ''delete'' mock_sql) ([], [accepted 1])))
 \<and> AnySQL_insert (mock_sql\<lparr>sql_affected := Some 3\<rparr>) ([], [accepted 1])
      = AnySQL_insert mock_sql ([], [accepted 1])
 \<and> AnySQL_update (mock_sql\<lparr>sql_affected := Some 3\<rparr>) ([], [accepted 1])
      = AnySQL_update mock_sql ([], [accepted 1])
 \<and> AnySQL_delete (mock_sql\<lparr>sql_affected := Some 3\<rparr>) ([], [accepted 1])
      = AnySQL_delete mock_sql ([], [accepted 1])"
proof -
  have h: "r_success (fst (invoke (sql_session mock_sql) (Sql_request verb mock_sql)
                             ([], [accepted 1])))" for verb
    by (simp add: mock_sql_call accepted_def)
  show ?thesis
    using h second_call_overwrites
            [where sql = mock_sql and w' = "([], [accepted 1])" and m = "Some 3"
               and ins = mock_insert and describe = mock_describe and rcd = mock_record
               and e = None and s = True and n = None and c = None and w = "([], [])"
               and close = None and k = None and host_lower = id]
    by blast
qed

text \<open>
  C2 as stated fails for \<open>AnySQL\<close>: an \<open>insert\<close> accepted with three affected rows,
  followed on the same object by an \<open>insert\<close> that the backend declines, leaves
  \<open>affected()\<close> at 3, the count of the first call.
\<close>

theorem AnySQL_stale_affected_counterexample:
  "returned (consecutive AnySQL_insert AnySQL_insert mock_sql ([], [accepted 3, declined])) = False
 \<and> AnySQL_affected
      (object_after (consecutive AnySQL_insert AnySQL_insert mock_sql ([], [accepted 3, declined])))
    = Some 3"
  by (simp add: consecutive_def AnySQL_insert_def AnySQL_affected_def mock_call mock_sql_call)
     (simp add: accepted_def declined_def mock_sql_def mock_call)

subsection \<open>C3: where the savepoint flag is put\<close>

text \<open>
  C3 (as amended). In every request built by an operation of \<open>AnySQL\<close>, the flag set by
  \<open>useSavePoint\<close> is the boolean property \<open>savepoint\<close> of the envelope under \<open>Sql\<close>,
  beside \<open>invoke\<close>, \<open>source\<close>, \<open>session\<close> and the optional \<open>bindvalues\<close>, and not
  a property of \<open>select()\<close>. In the request built by \<open>Insert.execute\<close>, the flag is the
  boolean property \<open>savepoint\<close> of the sub-object \<open>insert()\<close>, and the envelope under
  \<open>Table\<close> has no property \<open>savepoint\<close>. Without a call of \<open>useSavePoint\<close> neither
  request has the property.
\<close>

theorem savepoint_placement:
  "lookup [''Sql'', ''savepoint''] (Sql_request verb (AnySQL_useSavePoint flag sql))
     = Some (JBool flag)
 \<and> lookup [''Sql'', ''savepoint''] (select_request close k (AnySQL_useSavePoint flag sql))
     = Some (JBool flag)
 \<and> lookup [''Sql'', ''select()'', ''savepoint'']
       (select_request close k (AnySQL_useSavePoint flag sql)) = None
 \<and> lookup [''Sql'', ''invoke''] (Sql_request verb (AnySQL_useSavePoint flag sql))
     = Some (JStr verb)
 \<and> lookup [''Sql'', ''source''] (Sql_request verb (AnySQL_useSavePoint flag sql))
     = Some (JStr (sql_source sql))
 \<and> lookup [''Sql'', ''session''] (Sql_request verb (AnySQL_useSavePoint flag sql))
     = Some (JStr (sessionID (sql_session sql)))
 \<and> lookup [''Sql'', ''bindvalues''] (Sql_request verb (AnySQL_useSavePoint flag sql))
     = map_option JArr (sql_bindvalues sql)
 \<and> lookup [''Sql'', ''savepoint''] (Sql_request verb sql) = map_option JBool (sql_savepoint sql)
 \<and> lookup [''Sql'', ''savepoint''] (select_request close k sql)
     = map_option JBool (sql_savepoint sql)
 \<and> lookup [''Table'', ''insert()'', ''savepoint'']
       (insert_request (Insert_useSavePoint flag ins) rcd) = Some (JBool flag)
 \<and> lookup [''Table'', ''savepoint''] (insert_request (Insert_useSavePoint flag ins) rcd) = None
 \<and> lookup [''Table'', ''insert()'', ''savepoint''] (insert_request ins rcd)
     = map_option JBool (ins_savepoint ins)"
  by (simp add: Sql_request_fields select_request_fields insert_request_fields
        AnySQL_useSavePoint_def Insert_useSavePoint_def)

text \<open>
  C3 as stated fails for \<open>Insert\<close>: the request that \<open>execute\<close> hands to the session
  after \<open>useSavePoint(true)\<close> carries \<open>savepoint\<close> inside \<open>insert()\<close>, before
  \<open>values\<close>, and not in the envelope.
\<close>

theorem Insert_savepoint_counterexample:
  "fst (snd (Insert_execute mock_describe mock_record (Insert_useSavePoint True mock_insert)
               ([], [accepted 1])))
   = [JObj [(''Table'',
       JObj [(''invoke'', JStr ''insert''), (''source'', JStr ''emp''), (''session'', JStr ''S1''),
             (''insert()'',
                JObj [(''savepoint'', JBool True),
                      (''values'',
                         JArr [JObj [(''column'', JStr ''id''), (''value'', JNum 7)],
                               JObj [(''column'', JStr ''name''), (''value'', JStr ''Ann'')]])])])]]"
  by (simp add: Insert_execute_def Insert_useSavePoint_def mock_insert_def mock_describe_def
        mock_invoke_def insert_request_def record_values_def mock_record_def mock_table_def
        at_index_def mock_session_def upt_rec Let_def)

subsection \<open>C4: the values array of an insert\<close>

text \<open>
  C4. \<open>Insert.execute\<close> hands the session exactly one request: where the world of the
  session keeps the list \<open>sent\<close> of the requests it has been handed, the call appends one
  request to the list as \<open>describe()\<close> has left it. For a record with \<open>n\<close> columns that
  request has under \<open>insert()\<close> a \<open>values\<close> array of exactly \<open>n\<close> objects, and the
  \<open>i\<close>-th object holds the \<open>i\<close>-th column name of the record under \<open>column\<close> and the
  \<open>i\<close>-th value of the record under \<open>value\<close> (which reads as \<open>undefined\<close> should the
  record have fewer values than columns).
\<close>

theorem insert_values_match_record:
  assumes "\<And>rq v. sent (snd (invoke (ins_session ins) rq v)) = sent v @ [rq]"
  shows "\<exists>request vals.
           sent (world_after (Insert_execute describe rcd ins w))
             = sent (snd (describe (ins_table ins) w)) @ [request]
         \<and> lookup [''Table'', ''insert()'', ''values''] request = Some (JArr vals)
         \<and> length vals = length (rec_columns rcd)
         \<and> (\<forall>i < length (rec_columns rcd).
               vals ! i =
                 JObj [(''column'', JStr (rec_columns rcd ! i)),
                       (''value'', if i < length (rec_values rcd) then rec_values rcd ! i
                                   else JUndefined)])"
proof -
  obtain t w1 where d: "describe (ins_table ins) w = (t, w1)"
    by (cases "describe (ins_table ins) w")
  let ?request = "insert_request (ins\<lparr>ins_table := t\<rparr>) rcd"
  obtain r w2 where i: "invoke (ins_session ins) ?request w1 = (r, w2)"
    by (cases "invoke (ins_session ins) ?request w1")
  note eq = Insert_execute_eq [of describe ins w t w1 rcd r w2, OF d i]
  have "sent w2 = sent w1 @ [?request]"
    using assms [of ?request w1] i by simp
  then have handed: "sent (world_after (Insert_execute describe rcd ins w))
                       = sent (snd (describe (ins_table ins) w)) @ [?request]"
    by (simp add: eq d)
  have vals: "lookup [''Table'', ''insert()'', ''values''] ?request
                = Some (JArr (record_values rcd))"
    by (simp add: insert_request_fields)
  have len: "length (record_values rcd) = length (rec_columns rcd)"
    by (simp add: record_values_def)
  have nth: "\<forall>i < length (rec_columns rcd).
               record_values rcd ! i =
                 JObj [(''column'', JStr (rec_columns rcd ! i)),
                       (''value'', if i < length (rec_values rcd) then rec_values rcd ! i
                                   else JUndefined)]"
    by (simp add: record_values_def at_index_def)
  from handed vals len nth show ?thesis by blast
qed

theorem insert_values_match_record_witness:
  "\<exists>request vals.
     fst (world_after (Insert_execute mock_describe mock_record mock_insert ([], [accepted 1])))
       = [request]
   \<and> lookup [''Table'', ''insert()'', ''values''] request = Some (JArr vals)
   \<and> length vals = 2
   \<and> vals ! 0 = JObj [(''column'', JStr ''id''), (''value'', JNum 7)]
   \<and> vals ! 1 = JObj [(''column'', JStr ''name''), (''value'', JStr ''Ann'')]"
proof -
  have h: "fst (snd (invoke (ins_session mock_insert) rq v)) = fst v @ [rq]" for rq v
    by (cases v) (simp add: mock_insert_def mock_session_def mock_invoke_def split: list.splits)
  have d: "fst (snd (mock_describe (ins_table mock_insert) ([], [accepted 1]))) = []"
    by (simp add: mock_describe_def)
  have n: "length (rec_columns mock_record) = 2" by (simp add: mock_record_def)
  obtain request vals where
        s: "fst (world_after (Insert_execute mock_describe mock_record mock_insert
                                ([], [accepted 1])))
              = fst (snd (mock_describe (ins_table mock_insert) ([], [accepted 1]))) @ [request]"
    and l: "lookup [''Table'', ''insert()'', ''values''] request = Some (JArr vals)"
    and k: "length vals = length (rec_columns mock_record)"
    and v: "\<forall>i < length (rec_columns mock_record).
               vals ! i =
                 JObj [(''column'', JStr (rec_columns mock_record ! i)),
                       (''value'', if i < length (rec_values mock_record)
                                   then rec_values mock_record ! i else JUndefined)]"
    using insert_values_match_record
            [where sent = fst and ins = mock_insert and describe = mock_describe
               and rcd = mock_record and w = "([], [accepted 1])", OF h]
    by blast
  from v n have v0: "vals ! 0 = JObj [(''column'', JStr ''id''), (''value'', JNum 7)]"
    by (simp add: mock_record_def)
  from v n have v1: "vals ! 1 = JObj [(''column'', JStr ''name''), (''value'', JStr ''Ann'')]"
    by (simp add: mock_record_def)
  from s d l k n v0 v1 show ?thesis by auto
qed

subsection \<open>C5: the constructor of AnySQL\<close>

text \<open>
  C5 (as amended). Constructing \<open>AnySQL\<close> throws exactly when the source is null, absent
  or the empty string, or the session is null or absent; with a non-empty source and a
  session it does not throw. In either case the world is left as it was: the constructor
  hands no request to the session.
\<close>

theorem AnySQL_new_throws:
  "isl (fst (AnySQL_new session source bindvalues w))
     = (source = None \<or> source = Some [] \<or> session = None)
 \<and> snd (AnySQL_new session source bindvalues w) = w"
  by (simp add: AnySQL_new_def split: option.splits)

text \<open>
  C5 as stated fails at the empty source: with a session and the source \<open>""\<close> both
  present, the constructor throws \<open>SOURCE_IS_NULL\<close>.
\<close>

theorem AnySQL_new_empty_source_counterexample:
  "AnySQL_new (Some mock_session) (Some []) None ([], [])
     = (Inl (Message ''SOURCE_IS_NULL'' ''AnySQL''), ([], []))"
  by (simp add: AnySQL_new_def)

subsection \<open>C6: a declined operation\<close>

text \<open>
  C6. For each of \<open>AnySQL.execute\<close>, \<open>insert\<close>, \<open>update\<close>, \<open>delete\<close>, \<open>select\<close>
  and \<open>Insert.execute\<close>: if the session answers the request of the call with a response
  \<open>r\<close> that has \<open>success = false\<close> and \<open>message = X\<close>, then the call returns
  normally (\<open>false\<close>, or \<open>null\<close> for \<open>select\<close>), and afterwards \<open>failed()\<close> is true and
  \<open>getErrorMessage()\<close> is \<open>X\<close>.
\<close>

theorem declined_is_reported:
  assumes "\<not> r_success r" and "r_message r = Some X"
  shows "(fst (invoke (sql_session sql) (Sql_request ''execute'' sql) w) = r \<longrightarrow>
            returned (AnySQL_execute sql w) = False
          \<and> AnySQL_failed (object_after (AnySQL_execute sql w))
          \<and> AnySQL_getErrorMessage (object_after (AnySQL_execute sql w)) = Some X)
       \<and> (fst (invoke (sql_session sql) (Sql_request ''insert'' sql) w) = r \<longrightarrow>
            returned (AnySQL_insert sql w) = False
          \<and> AnySQL_failed (object_after (AnySQL_insert sql w))
          \<and> AnySQL_getErrorMessage (object_after (AnySQL_insert sql w)) = Some X)
       \<and> (fst (invoke (sql_session sql) (Sql_request ''update'' sql) w) = r \<longrightarrow>
            returned (AnySQL_update sql w) = False
          \<and> AnySQL_failed (object_after (AnySQL_update sql w))
          \<and> AnySQL_getErrorMessage (object_after (AnySQL_update sql w)) = Some X)
       \<and> (fst (invoke (sql_session sql) (Sql_request ''delete'' sql) w) = r \<longrightarrow>
            returned (AnySQL_delete sql w) = False
          \<and> AnySQL_failed (object_after (AnySQL_delete sql w))
          \<and> AnySQL_getErrorMessage (object_after (AnySQL_delete sql w)) = Some X)
       \<and> (fst (invoke (sql_session sql)
                  (select_request (case close of None \<Rightarrow> False | Some c \<Rightarrow> c)
                                  (case k of None \<Rightarrow> 1 | Some n \<Rightarrow> n) sql) w) = r \<longrightarrow>
            returned (AnySQL_select host_lower close k sql w) = None
          \<and> AnySQL_failed (object_after (AnySQL_select host_lower close k sql w))
          \<and> AnySQL_getErrorMessage (object_after (AnySQL_select host_lower close k sql w)) = Some X)
       \<and> (fst (invoke (ins_session ins)
                  (insert_request (ins\<lparr>ins_table := fst (describe (ins_table ins) v)\<rparr>) rcd)
                  (snd (describe (ins_table ins) v))) = r \<longrightarrow>
            returned (Insert_execute describe rcd ins v) = False
          \<and> Insert_failed (object_after (Insert_execute describe rcd ins v))
          \<and> Insert_getErrorMessage (object_after (Insert_execute describe rcd ins v)) = Some X)"
proof -
  have e: "fst (invoke (sql_session sql) (Sql_request ''execute'' sql) w) = r \<Longrightarrow>
            returned (AnySQL_execute sql w) = False
          \<and> AnySQL_failed (object_after (AnySQL_execute sql w))
          \<and> AnySQL_getErrorMessage (object_after (AnySQL_execute sql w)) = Some X"
    using assms
    by (cases "invoke (sql_session sql) (Sql_request ''execute'' sql) w")
       (simp add: AnySQL_execute_def AnySQL_failed_def AnySQL_getErrorMessage_def)
  have i: "fst (invoke (sql_session sql) (Sql_request ''insert'' sql) w) = r \<Longrightarrow>
            returned (AnySQL_insert sql w) = False
          \<and> AnySQL_failed (object_after (AnySQL_insert sql w))
          \<and> AnySQL_getErrorMessage (object_after (AnySQL_insert sql w)) = Some X"
    using assms
    by (cases "invoke (sql_session sql) (Sql_request ''insert'' sql) w")
       (simp add: AnySQL_insert_def AnySQL_failed_def AnySQL_getErrorMessage_def)
  have u: "fst (invoke (sql_session sql) (Sql_request ''update'' sql) w) = r \<Longrightarrow>
            returned (AnySQL_update sql w) = False
          \<and> AnySQL_failed (object_after (AnySQL_update sql w))
          \<and> AnySQL_getErrorMessage (object_after (AnySQL_update sql w)) = Some X"
    using assms
    by (cases "invoke (sql_session sql) (Sql_request ''update'' sql) w")
       (simp add: AnySQL_update_def AnySQL_failed_def AnySQL_getErrorMessage_def)
  have d: "fst (invoke (sql_session sql) (Sql_request ''delete'' sql) w) = r \<Longrightarrow>
            returned (AnySQL_delete sql w) = False
          \<and> AnySQL_failed (object_after (AnySQL_delete sql w))
          \<and> AnySQL_getErrorMessage (object_after (AnySQL_delete sql w)) = Some X"
    using assms
    by (cases "invoke (sql_session sql) (Sql_request ''delete'' sql) w")
       (simp add: AnySQL_delete_def AnySQL_failed_def AnySQL_getErrorMessage_def)
  have s: "fst (invoke (sql_session sql)
                  (select_request (case close of None \<Rightarrow> False | Some c \<Rightarrow> c)
                                  (case k of None \<Rightarrow> 1 | Some n \<Rightarrow> n) sql) w) = r \<Longrightarrow>
            returned (AnySQL_select host_lower close k sql w) = None
          \<and> AnySQL_failed (object_after (AnySQL_select host_lower close k sql w))
          \<and> AnySQL_getErrorMessage (object_after (AnySQL_select host_lower close k sql w)) = Some X"
    using assms
    by (cases "invoke (sql_session sql)
                  (select_request (case close of None \<Rightarrow> False | Some c \<Rightarrow> c)
                                  (case k of None \<Rightarrow> 1 | Some n \<Rightarrow> n) sql) w")
       (simp add: AnySQL_select_def AnySQL_failed_def AnySQL_getErrorMessage_def)
  have x: "fst (invoke (ins_session ins)
                  (insert_request (ins\<lparr>ins_table := fst (describe (ins_table ins) v)\<rparr>) rcd)
                  (snd (describe (ins_table ins) v))) = r \<Longrightarrow>
            returned (Insert_execute describe rcd ins v) = False
          \<and> Insert_failed (object_after (Insert_execute describe rcd ins v))
          \<and> Insert_getErrorMessage (object_after (Insert_execute describe rcd ins v)) = Some X"
  proof -
    assume h: "fst (invoke (ins_session ins)
                  (insert_request (ins\<lparr>ins_table := fst (describe (ins_table ins) v)\<rparr>) rcd)
                  (snd (describe (ins_table ins) v))) = r"
    obtain t v1 where dd: "describe (ins_table ins) v = (t, v1)"
      by (cases "describe (ins_table ins) v")
    obtain r' v2 where ii:
      "invoke (ins_session ins) (insert_request (ins\<lparr>ins_table := t\<rparr>) rcd) v1 = (r', v2)"
      by (cases "invoke (ins_session ins) (insert_request (ins\<lparr>ins_table := t\<rparr>) rcd) v1")
    from h dd ii have "r' = r" by simp
    with assms Insert_execute_eq [of describe ins v t v1 rcd r' v2, OF dd ii] show ?thesis
      by (simp add: Insert_failed_def Insert_getErrorMessage_def)
  qed
  from e i u d s x show ?thesis by blast
qed

theorem declined_is_reported_witness:
  "returned (AnySQL_execute mock_sql ([], [declined])) = False
 \<and> AnySQL_failed (object_after (AnySQL_execute mock_sql ([], [declined])))
 \<and> AnySQL_getErrorMessage (object_after (AnySQL_execute mock_sql ([], [declined]))) = Some ''X''
 \<and> returned (AnySQL_insert mock_sql ([], [declined])) = False
 \<and> AnySQL_getErrorMessage (object_after (AnySQL_insert mock_sql ([], [declined]))) = Some ''X''
 \<and> returned (AnySQL_update mock_sql ([], [declined])) = False
 \<and> AnySQL_getErrorMessage (object_after (AnySQL_update mock_sql ([], [declined]))) = Some ''X''
 \<and> returned (AnySQL_delete mock_sql ([], [declined])) = False
 \<and> AnySQL_getErrorMessage (object_after (AnySQL_delete mock_sql ([], [declined]))) = Some ''X''
 \<and> returned (AnySQL_select id None None mock_sql ([], [declined])) = None
 \<and> AnySQL_getErrorMessage (object_after (AnySQL_select id None None mock_sql ([], [declined])))
      = Some ''X''
 \<and> returned (Insert_execute mock_describe mock_record mock_insert ([], [declined])) = False
 \<and> Insert_failed (object_after (Insert_execute mock_describe mock_record mock_insert
                                   ([], [declined])))
 \<and> Insert_getErrorMessage (object_after (Insert_execute mock_describe mock_record mock_insert
                                            ([], [declined]))) = Some ''X''"
proof -
  have a: "\<not> r_success declined" "r_message declined = Some ''X''"
    by (simp_all add: declined_def)
  have c: "fst (invoke (sql_session mock_sql) rq ([], [declined])) = declined" for rq
    by (simp add: mock_sql_call)
  have x: "fst (invoke (ins_session mock_insert) rq
                  (snd (mock_describe (ins_table mock_insert) ([], [declined])))) = declined" for rq
    by (simp add: mock_insert_def mock_describe_def mock_call)
  show ?thesis
    using c x declined_is_reported
            [OF a, where sql = mock_sql and w = "([], [declined])" and close = None and k = None and host_lower = id
               and ins = mock_insert and describe = mock_describe and rcd = mock_record
               and v = "([], [declined])"]
    by blast
qed

subsection \<open>C7: the column map of a select\<close>

text \<open>
  C7. If the response to \<open>select\<close> has \<open>success = true\<close> and the single column
  descriptor \<open>{name: "A"}\<close>, then \<open>select\<close> returns a cursor whose column map has
  exactly one key, the lower-cased name \<open>a\<close>. (The definition stored under that key and
  the list of names in the data of the cursor keep the spelling \<open>A\<close> of the response.)
\<close>

theorem select_lowercases_key:
  assumes "invoke (sql_session sql)
             (select_request (case close of None \<Rightarrow> False | Some c \<Rightarrow> c)
                             (case k of None \<Rightarrow> 1 | Some n \<Rightarrow> n) sql) w = (r, w')"
      and "r_success r" and "r_columns r = [cd]" and "cd_name cd = ''A''"
  shows "\<exists>c. returned (AnySQL_select host_lower close k sql w) = Some c
           \<and> map fst (c_columns c) = [''a'']
           \<and> c_columns c = [(''a'', \<lparr> col_name = ''A'', col_type = cd_type cd,
                                         col_sqltype = cd_sqltype cd,
                                         col_precision = cd_precision cd \<rparr>)]
           \<and> c_response c = \<lparr> cur_more = r_more r, cur_rows = r_rows r,
                                cur_columns = [''A''] \<rparr>
           \<and> c_session c = sql_session sql"
  using assms by (simp add: AnySQL_select_def add_column_pair toLowerCase_A)

theorem select_lowercases_key_witness:
  "map_option (\<lambda>c. map fst (c_columns c))
     (returned (AnySQL_select id None None mock_sql ([], [select_reply]))) = Some [''a'']"
proof -
  have i: "invoke (sql_session mock_sql)
             (select_request (case None of None \<Rightarrow> False | Some c \<Rightarrow> c)
                             (case None of None \<Rightarrow> 1 | Some n \<Rightarrow> n) mock_sql) ([], [select_reply])
           = (select_reply,
              ([select_request (case None of None \<Rightarrow> False | Some c \<Rightarrow> c)
                             (case None of None \<Rightarrow> 1 | Some n \<Rightarrow> n) mock_sql], []))"
    by (simp add: mock_sql_call)
  have s: "r_success select_reply" by (simp add: select_reply_def)
  have c: "r_columns select_reply = [hd (r_columns select_reply)]"
    by (simp add: select_reply_def)
  have n: "cd_name (hd (r_columns select_reply)) = ''A''" by (simp add: select_reply_def)
  from select_lowercases_key [where host_lower = id, OF i s c n] show ?thesis by auto
qed

text \<open>The same for any list of column descriptors.\<close>

lemma select_cursor_columns:
  assumes "invoke (sql_session sql)
             (select_request (case close of None \<Rightarrow> False | Some c \<Rightarrow> c)
                             (case k of None \<Rightarrow> 1 | Some n \<Rightarrow> n) sql) w = (r, w')"
      and "r_success r"
  shows "\<exists>c. returned (AnySQL_select host_lower close k sql w) = Some c
           \<and> fst ` set (c_columns c) = toLowerCase host_lower ` cd_name ` set (r_columns r)
           \<and> cur_columns (c_response c) = map cd_name (r_columns r)"
proof -
  obtain cols columns where f: "fold (add_column host_lower) (r_columns r) ([], []) = (cols, columns)"
    by (cases "fold (add_column host_lower) (r_columns r) ([], [])")
  have ks: "fst ` set columns = toLowerCase host_lower ` cd_name ` set (r_columns r)"
    using add_column_keys [of host_lower "r_columns r" "([], [])"] f by simp
  have ns: "cols = map cd_name (r_columns r)"
    using add_column_names [of host_lower "r_columns r" "([], [])"] f by simp
  show ?thesis
    using assms f ks ns by (simp add: AnySQL_select_def)
qed

subsection \<open>C8: the cursor of the returned columns\<close>

text \<open>
  C8. \<open>setReturnColumns\<close> records the columns \<open>C\<close> (a single name as a list of one).
  If columns \<open>C\<close> are recorded and the response to \<open>Insert.execute\<close> has
  \<open>success = true\<close>, then \<open>getReturnValues()\<close> afterwards gives the cursor built from
  the session, the column definitions of the table and the data with \<open>more = false\<close>,
  \<open>rows\<close> the rows of the response and \<open>columns\<close> exactly \<open>C\<close>. If no columns are
  recorded, no cursor is built.
\<close>

theorem returning_cursor:
  assumes "describe (ins_table ins) w = (t, w1)"
      and "invoke (ins_session ins) (insert_request (ins\<lparr>ins_table := t\<rparr>) rcd) w1 = (r, w2)"
      and "r_success r"
  shows "ins_returning (Insert_setReturnColumns (Inr C) ins') = Some C
       \<and> ins_returning (Insert_setReturnColumns (Inl c) ins') = Some [c]
       \<and> (ins_returning ins = Some C \<longrightarrow>
            Insert_getReturnValues (object_after (Insert_execute describe rcd ins w))
              = Some \<lparr> c_session = ins_session ins, c_columns = getColumnDefinitions t,
                        c_response = \<lparr> cur_more = False, cur_rows = r_rows r,
                                        cur_columns = C \<rparr> \<rparr>)
       \<and> (ins_returning ins = None \<longrightarrow>
            Insert_getReturnValues (object_after (Insert_execute describe rcd ins w)) = None)"
  using assms(3)
  by (simp add: Insert_execute_eq [of describe ins w t w1 rcd r w2, OF assms(1,2)]
        Insert_setReturnColumns_def Insert_getReturnValues_def)

theorem returning_cursor_witness:
  "Insert_getReturnValues
     (object_after (Insert_execute mock_describe mock_record
                      (Insert_setReturnColumns (Inr [''id'']) mock_insert) ([], [insert_reply])))
     = Some \<lparr> c_session = mock_session, c_columns = tab_definitions mock_table,
               c_response = \<lparr> cur_more = False, cur_rows = [JArr [JNum 7]],
                               cur_columns = [''id''] \<rparr> \<rparr>
 \<and> Insert_getReturnValues
     (object_after (Insert_execute mock_describe mock_record mock_insert ([], [insert_reply])))
     = None"
proof -
  let ?ins = "Insert_setReturnColumns (Inr [''id'']) mock_insert"
  have s: "r_success insert_reply" by (simp add: insert_reply_def accepted_def)
  have d: "mock_describe (ins_table ?ins) ([], [insert_reply])
             = (mock_table, ([], [insert_reply]))"
    by (simp add: mock_describe_def Insert_setReturnColumns_def mock_insert_def)
  have d': "mock_describe (ins_table mock_insert) ([], [insert_reply])
             = (mock_table, ([], [insert_reply]))"
    by (simp add: mock_describe_def mock_insert_def)
  have i': "invoke (ins_session mock_insert)
              (insert_request (mock_insert\<lparr>ins_table := mock_table\<rparr>) mock_record)
              ([], [insert_reply])
            = (insert_reply,
               ([insert_request (mock_insert\<lparr>ins_table := mock_table\<rparr>) mock_record], []))"
    by (simp add: mock_insert_def mock_call)
  have i: "invoke (ins_session ?ins)
              (insert_request (?ins\<lparr>ins_table := mock_table\<rparr>) mock_record)
              ([], [insert_reply])
            = (insert_reply,
               ([insert_request (?ins\<lparr>ins_table := mock_table\<rparr>) mock_record], []))"
    by (simp add: mock_insert_call)
  have a: "Insert_getReturnValues
             (object_after (Insert_execute mock_describe mock_record ?ins ([], [insert_reply])))
           = Some \<lparr> c_session = mock_session, c_columns = tab_definitions mock_table,
                     c_response = \<lparr> cur_more = False, cur_rows = [JArr [JNum 7]],
                                     cur_columns = [''id''] \<rparr> \<rparr>"
    using returning_cursor [where describe = mock_describe, OF d i s, of "[''id'']"]
    by (simp add: Insert_setReturnColumns_def mock_insert_def insert_reply_def
          getColumnDefinitions_def)
  have b: "Insert_getReturnValues
             (object_after (Insert_execute mock_describe mock_record mock_insert
                              ([], [insert_reply]))) = None"
  proof -
    have r: "ins_returning mock_insert = None" by (simp add: mock_insert_def)
    from returning_cursor [where describe = mock_describe, OF d' i' s] r show ?thesis by blast
  qed
  from a b show ?thesis by simp
qed

subsection \<open>C9: what select and the mutating operations return\<close>

text \<open>
  C9. \<open>select\<close> returns \<open>null\<close> exactly when the response has \<open>success = false\<close>, and
  a cursor exactly when it has \<open>success = true\<close>; \<open>execute\<close>, \<open>insert\<close>, \<open>update\<close>
  and \<open>delete\<close> return the \<open>success\<close> of the response itself.
\<close>

theorem select_null_iff_declined:
  "(returned (AnySQL_select host_lower close k sql w) = None)
     = (\<not> r_success (fst (invoke (sql_session sql)
          (select_request (case close of None \<Rightarrow> False | Some c \<Rightarrow> c)
                          (case k of None \<Rightarrow> 1 | Some n \<Rightarrow> n) sql) w)))
 \<and> (\<exists>c. returned (AnySQL_select host_lower close k sql w) = Some c)
     = r_success (fst (invoke (sql_session sql)
          (select_request (case close of None \<Rightarrow> False | Some c \<Rightarrow> c)
                          (case k of None \<Rightarrow> 1 | Some n \<Rightarrow> n) sql) w))
 \<and> returned (AnySQL_execute sql w)
     = r_success (fst (invoke (sql_session sql) (Sql_request ''execute'' sql) w))
 \<and> returned (AnySQL_insert sql w)
     = r_success (fst (invoke (sql_session sql) (Sql_request ''insert'' sql) w))
 \<and> returned (AnySQL_update sql w)
     = r_success (fst (invoke (sql_session sql) (Sql_request ''update'' sql) w))
 \<and> returned (AnySQL_delete sql w)
     = r_success (fst (invoke (sql_session sql) (Sql_request ''delete'' sql) w))"
  by (simp add: AnySQL_select_def AnySQL_execute_def AnySQL_insert_def AnySQL_update_def
        AnySQL_delete_def Let_def split: prod.splits)

subsection \<open>C10: Insert.execute after a failure\<close>

text \<open>
  C10. Whenever \<open>Insert.execute\<close> returns \<open>false\<close>, \<open>affected()\<close> is 0 and
  \<open>getReturnValues()\<close> is \<open>null\<close> afterwards, whatever the object held before the
  call.
\<close>

theorem Insert_execute_false_resets:
  "returned (Insert_execute describe rcd ins w) = False
     \<Longrightarrow> Insert_affected (object_after (Insert_execute describe rcd ins w)) = Some 0
       \<and> Insert_getReturnValues (object_after (Insert_execute describe rcd ins w)) = None"
proof -
  assume f: "returned (Insert_execute describe rcd ins w) = False"
  obtain t w1 where d: "describe (ins_table ins) w = (t, w1)"
    by (cases "describe (ins_table ins) w")
  obtain r w2 where i:
    "invoke (ins_session ins) (insert_request (ins\<lparr>ins_table := t\<rparr>) rcd) w1 = (r, w2)"
    by (cases "invoke (ins_session ins) (insert_request (ins\<lparr>ins_table := t\<rparr>) rcd) w1")
  note eq = Insert_execute_eq [of describe ins w t w1 rcd r w2, OF d i]
  from f eq have "\<not> r_success r" by simp
  then show ?thesis
    by (simp add: eq Insert_affected_def Insert_getReturnValues_def split: option.splits)
qed

theorem Insert_execute_false_resets_witness:
  "Insert_affected
     (object_after (Insert_execute mock_describe mock_record
                      (Insert_setReturnColumns (Inr [''id'']) mock_insert)
                      ([], [insert_reply, declined]))) = Some 1
 \<and> Insert_getReturnValues
     (object_after (Insert_execute mock_describe mock_record
                      (Insert_setReturnColumns (Inr [''id'']) mock_insert)
                      ([], [insert_reply, declined]))) \<noteq> None
 \<and> returned (consecutive (Insert_execute mock_describe mock_record)
                (Insert_execute mock_describe mock_record)
                (Insert_setReturnColumns (Inr [''id'']) mock_insert)
                ([], [insert_reply, declined])) = False
 \<and> Insert_affected
     (object_after (consecutive (Insert_execute mock_describe mock_record)
                      (Insert_execute mock_describe mock_record)
                      (Insert_setReturnColumns (Inr [''id'']) mock_insert)
                      ([], [insert_reply, declined]))) = Some 0
 \<and> Insert_getReturnValues
     (object_after (consecutive (Insert_execute mock_describe mock_record)
                      (Insert_execute mock_describe mock_record)
                      (Insert_setReturnColumns (Inr [''id'']) mock_insert)
                      ([], [insert_reply, declined]))) = None"
proof -
  let ?ins = "Insert_setReturnColumns (Inr [''id'']) mock_insert"
  let ?w = "([], [insert_reply, declined]) :: mock_world"
  let ?first = "Insert_execute mock_describe mock_record ?ins ?w"
  have d: "mock_describe (ins_table ?ins) ?w = (mock_table, ?w)"
    by (simp add: mock_describe_def Insert_setReturnColumns_def mock_insert_def)
  have i: "invoke (ins_session ?ins)
              (insert_request (?ins\<lparr>ins_table := mock_table\<rparr>) mock_record) ?w
            = (insert_reply,
               ([insert_request (?ins\<lparr>ins_table := mock_table\<rparr>) mock_record], [declined]))"
    by (simp add: mock_insert_call)
  note first = Insert_execute_eq [where describe = mock_describe, OF d i]
  have a: "Insert_affected (object_after ?first) = Some 1"
    unfolding first by (simp add: Insert_affected_def insert_reply_def accepted_def)
  have c: "Insert_getReturnValues (object_after ?first) \<noteq> None"
    unfolding first
    by (simp add: Insert_getReturnValues_def insert_reply_def accepted_def
          Insert_setReturnColumns_def)
  let ?ins1 = "object_after ?first" and ?w1 = "world_after ?first"
  have d1: "mock_describe (ins_table ?ins1) ?w1 = (mock_table, ?w1)"
    unfolding first by (simp add: mock_describe_def)
  have i1: "invoke (ins_session ?ins1)
              (insert_request (?ins1\<lparr>ins_table := mock_table\<rparr>) mock_record) ?w1
            = (declined,
               (fst ?w1 @ [insert_request (?ins1\<lparr>ins_table := mock_table\<rparr>) mock_record], []))"
    unfolding first by (simp add: Insert_setReturnColumns_def mock_insert_def mock_call)
  have f: "returned (Insert_execute mock_describe mock_record ?ins1 ?w1) = False"
    unfolding Insert_execute_eq [where describe = mock_describe, OF d1 i1]
    by (simp add: declined_def)
  from Insert_execute_false_resets [OF f] a c f show ?thesis
    by (simp add: consecutive_eq)
qed

end
